theory Spec2Isabelle
  imports Main
begin

section \<open>Validation actions of \<^verbatim>\<open>great_expectations/validation_operators/actions.py\<close>\<close>

text \<open>
  An action is invoked after a validation run through \<^verbatim>\<open>run\<close>, which delegates to
  the method \<^verbatim>\<open>_run\<close> of the action's class. The classes are embedded as
  single-constructor datatypes holding the attributes of \<^verbatim>\<open>self\<close>, each
  \<^verbatim>\<open>_run\<close> as one function named \<open>Class__run\<close>, each \<^verbatim>\<open>__init__\<close> that
  can fail as \<open>Class__init\<close>. A Python exception is the left injection of a sum; the
  world (standard output, the debug log, warnings, the calls made to collaborators and
  the contents of the stores) is passed explicitly and returned, also when an exception
  is raised.
\<close>

subsection \<open>Python values\<close>

text \<open>
  The object passed as \<^verbatim>\<open>validation_result_suite_identifier\<close>. Python checks
  nothing at the call, so any object can arrive; \<^verbatim>\<open>isinstance\<close> separates the
  first constructor from the others.
\<close>

datatype py_object =
    ValidationResultIdentifier string
  | ExpectationSuiteIdentifier string
  | PyStr string
  | PyNone

fun isinstance_ValidationResultIdentifier :: "py_object \<Rightarrow> bool" where
  "isinstance_ValidationResultIdentifier (ValidationResultIdentifier _) = True"
| "isinstance_ValidationResultIdentifier _ = False"

text \<open>\<^verbatim>\<open>"{0}".format(type(x))\<close>, the text the \<^verbatim>\<open>TypeError\<close> messages end with.\<close>

fun type_format :: "py_object \<Rightarrow> string" where
  "type_format (ValidationResultIdentifier _) =
     ''<class 'great_expectations.data_context.types.resource_identifiers.ValidationResultIdentifier'>''"
| "type_format (ExpectationSuiteIdentifier _) =
     ''<class 'great_expectations.data_context.types.resource_identifiers.ExpectationSuiteIdentifier'>''"
| "type_format (PyStr _) = ''<class 'str'>''"
| "type_format PyNone = ''<class 'NoneType'>''"

text \<open>
  A validation result: the boolean \<^verbatim>\<open>success\<close> and the rest of it, opaque here.
  The argument \<^verbatim>\<open>validation_result_suite\<close> is a \<open>validation_result option\<close>,
  \<open>None\<close> being Python's \<^verbatim>\<open>None\<close>.
\<close>

record validation_result =
  success :: bool
  body :: string

text \<open>What a call returns: \<^verbatim>\<open>None\<close>, a string, or the class object
  \<^verbatim>\<open>NotImplementedError\<close> (a value, not a raised exception).\<close>

datatype py_value = NoneValue | StrValue string | NotImplementedError_class

datatype exn =
    TypeError string
  | KeyError string
  | DataContextError string
  | Raised string

type_synonym payload = string

type_synonym requested_metrics = "(string \<times> (string \<times> string list) list) list"

subsection \<open>Collaborators and the world\<close>

text \<open>
  The calls an action makes to its collaborators, recorded in the order they are made.
\<close>

datatype call =
    Render validation_result
  | SendSlackNotification payload string
  | StoreSet nat py_object validation_result
  | StoreEvaluationParameters validation_result
  | StoreValidationResultMetrics requested_metrics validation_result string
  | BuildDataDocs "string list option" "py_object list"

text \<open>
  A store object: its identity, and whether \<^verbatim>\<open>isinstance(store, MetricStore)\<close>
  holds. Its contents live in the world, under its identity, so that every reference to
  the store sees a write.
\<close>

record store =
  ident :: nat
  metric_store :: bool

record world =
  stdout :: "string list"
  debug_log :: "string list"
  warnings_issued :: "(string \<times> string) list"
  calls :: "call list"
  store_contents :: "nat \<Rightarrow> (py_object \<rightharpoonup> validation_result)"
  slack :: "payload \<Rightarrow> string \<Rightarrow> exn + py_value"

text \<open>
  The Data Context handed to every constructor: the registry \<^verbatim>\<open>stores\<close>, the
  attributes \<^verbatim>\<open>validations_store_name\<close> and \<^verbatim>\<open>evaluation_parameter_store\<close>,
  and its three methods. The methods are not part of the file; what they answer (return,
  \<open>None\<close>, or raise, \<open>Some e\<close>) is a field of the record, and the actions discard the
  value they return.
\<close>

record data_context =
  stores :: "string \<rightharpoonup> store"
  validations_store_name :: string
  evaluation_parameter_store :: store
  store_evaluation_parameters :: "validation_result \<Rightarrow> exn option"
  store_validation_result_metrics :: "requested_metrics \<Rightarrow> validation_result \<Rightarrow> string \<Rightarrow> exn option"
  build_data_docs :: "string list option \<Rightarrow> py_object list \<Rightarrow> exn option"

text \<open>The renderer object held by the Slack action, given by its method \<^verbatim>\<open>render\<close>.\<close>

datatype renderer = Renderer "validation_result \<Rightarrow> exn + payload"

type_synonym outcome = "(exn + py_value) \<times> world"

definition logger_debug :: "string \<Rightarrow> world \<Rightarrow> world" where
  "logger_debug msg w = w\<lparr>debug_log := debug_log w @ [msg]\<rparr>"

definition print :: "string \<Rightarrow> world \<Rightarrow> world" where
  "print msg w = w\<lparr>stdout := stdout w @ [msg]\<rparr>"

definition record_call :: "call \<Rightarrow> world \<Rightarrow> world" where
  "record_call c w = w\<lparr>calls := calls w @ [c]\<rparr>"

text \<open>Statement without a value after a collaborator's call: its exception propagates.\<close>

definition after_call :: "exn option \<Rightarrow> world \<Rightarrow> outcome" where
  "after_call r w = (case r of None \<Rightarrow> (Inr NoneValue, w) | Some e \<Rightarrow> (Inl e, w))"

subsection \<open>The base class\<close>

datatype ValidationAction = ValidationAction data_context

text \<open>\<^verbatim>\<open>return NotImplementedError\<close>: the class object is returned.\<close>

fun ValidationAction__run ::
  "ValidationAction \<Rightarrow> validation_result option \<Rightarrow> py_object \<Rightarrow> 'd \<Rightarrow> world \<Rightarrow> outcome" where
  "ValidationAction__run (ValidationAction dc) validation_result_suite
       validation_result_suite_identifier data_asset w =
     (Inr NotImplementedError_class, w)"

subsection \<open>The no-op action\<close>

datatype NoOpAction = NoOpAction data_context

fun NoOpAction__run ::
  "NoOpAction \<Rightarrow> validation_result option \<Rightarrow> py_object \<Rightarrow> 'd \<Rightarrow> world \<Rightarrow> outcome" where
  "NoOpAction__run (NoOpAction dc) validation_result_suite
       validation_result_suite_identifier data_asset w =
     (Inr NoneValue, print ''Happily doing nothing'' w)"

subsection \<open>The Slack notification action\<close>

text \<open>Attributes: \<^verbatim>\<open>data_context\<close>, \<^verbatim>\<open>renderer\<close>, \<^verbatim>\<open>slack_webhook\<close>,
  \<^verbatim>\<open>notify_on\<close> (any string: the constructor does not check it).\<close>

datatype SlackNotificationAction =
  SlackNotificationAction data_context renderer string string

fun renderer_render :: "renderer \<Rightarrow> validation_result \<Rightarrow> world \<Rightarrow> (exn + payload) \<times> world" where
  "renderer_render (Renderer f) vr w = (f vr, record_call (Render vr) w)"

definition send_slack_notification :: "payload \<Rightarrow> string \<Rightarrow> world \<Rightarrow> outcome" where
  "send_slack_notification query slack_webhook w =
     (slack w query slack_webhook, record_call (SendSlackNotification query slack_webhook) w)"

fun SlackNotificationAction__run ::
  "SlackNotificationAction \<Rightarrow> validation_result option \<Rightarrow> py_object \<Rightarrow> 'd \<Rightarrow> world \<Rightarrow> outcome" where
  "SlackNotificationAction__run (SlackNotificationAction dc rn slack_webhook notify_on)
       validation_result_suite validation_result_suite_identifier data_asset w =
     (let w1 = logger_debug ''SlackNotificationAction.run'' w in
      case validation_result_suite of
        None \<Rightarrow> (Inr NoneValue, w1)
      | Some vr \<Rightarrow>
          if \<not> isinstance_ValidationResultIdentifier validation_result_suite_identifier
          then (Inl (TypeError
                  (''validation_result_suite_id must be of type ValidationResultIdentifier, not ''
                     @ type_format validation_result_suite_identifier)), w1)
          else
            let validation_success = success vr in
            if notify_on = ''all''
               \<or> notify_on = ''success'' \<and> validation_success
               \<or> notify_on = ''failure'' \<and> \<not> validation_success
            then (case renderer_render rn vr w1 of
                    (Inl e, w2) \<Rightarrow> (Inl e, w2)
                  | (Inr query, w2) \<Rightarrow> send_slack_notification query slack_webhook w2)
            else (Inr NoneValue, w1))"

subsection \<open>The action storing a validation result\<close>

text \<open>
  Modelled from the spec: the Store capability (\<^verbatim>\<open>get(identifier)\<close>,
  \<^verbatim>\<open>set(identifier, value)\<close>, upsert semantics on \<^verbatim>\<open>set\<close>) is not part of
  the file. \<open>store_set\<close> writes the pair into the contents of the store, replacing what
  was under the key; \<open>store_get\<close> reads the key, \<open>None\<close> when nothing is stored.
\<close>

definition store_set :: "store \<Rightarrow> py_object \<Rightarrow> validation_result \<Rightarrow> world \<Rightarrow> world" where
  "store_set s k v w =
     (record_call (StoreSet (ident s) k v) w)
       \<lparr>store_contents := (store_contents w)(ident s := (store_contents w (ident s))(k \<mapsto> v))\<rparr>"

definition store_get :: "store \<Rightarrow> py_object \<Rightarrow> world \<Rightarrow> validation_result option" where
  "store_get s k w = store_contents w (ident s) k"

text \<open>\<^verbatim>\<open>data_context.stores[name]\<close>: a missing key raises \<^verbatim>\<open>KeyError\<close>.\<close>

definition stores_getitem :: "data_context \<Rightarrow> string \<Rightarrow> exn + store" where
  "stores_getitem dc name =
     (case stores dc name of None \<Rightarrow> Inl (KeyError name) | Some s \<Rightarrow> Inr s)"

text \<open>Attributes: \<^verbatim>\<open>data_context\<close>, \<^verbatim>\<open>target_store\<close>.\<close>

datatype StoreValidationResultAction = StoreValidationResultAction data_context store

definition StoreValidationResultAction__init ::
  "data_context \<Rightarrow> string option \<Rightarrow> exn + StoreValidationResultAction" where
  "StoreValidationResultAction__init dc target_store_name =
     (case target_store_name of
        None \<Rightarrow>
          (case stores_getitem dc (validations_store_name dc) of
             Inl e \<Rightarrow> Inl e
           | Inr s \<Rightarrow> Inr (StoreValidationResultAction dc s))
      | Some name \<Rightarrow>
          (case stores_getitem dc name of
             Inl e \<Rightarrow> Inl e
           | Inr s \<Rightarrow> Inr (StoreValidationResultAction dc s)))"

fun StoreValidationResultAction__run ::
  "StoreValidationResultAction \<Rightarrow> validation_result option \<Rightarrow> py_object \<Rightarrow> 'd \<Rightarrow> world \<Rightarrow> outcome" where
  "StoreValidationResultAction__run (StoreValidationResultAction dc target_store)
       validation_result_suite validation_result_suite_identifier data_asset w =
     (let w1 = logger_debug ''StoreValidationResultAction.run'' w in
      case validation_result_suite of
        None \<Rightarrow> (Inr NoneValue, w1)
      | Some vr \<Rightarrow>
          if \<not> isinstance_ValidationResultIdentifier validation_result_suite_identifier
          then (Inl (TypeError
                  (''validation_result_id must be of type ValidationResultIdentifier, not ''
                     @ type_format validation_result_suite_identifier)), w1)
          else (Inr NoneValue, store_set target_store validation_result_suite_identifier vr w1))"

subsection \<open>The action storing evaluation parameters\<close>

text \<open>Attributes: \<^verbatim>\<open>data_context\<close>, \<^verbatim>\<open>target_store\<close>.\<close>

datatype StoreEvaluationParametersAction = StoreEvaluationParametersAction data_context store

definition StoreEvaluationParametersAction__init ::
  "data_context \<Rightarrow> string option \<Rightarrow> exn + StoreEvaluationParametersAction" where
  "StoreEvaluationParametersAction__init dc target_store_name =
     (case target_store_name of
        None \<Rightarrow> Inr (StoreEvaluationParametersAction dc (evaluation_parameter_store dc))
      | Some name \<Rightarrow>
          (case stores_getitem dc name of
             Inl e \<Rightarrow> Inl e
           | Inr s \<Rightarrow> Inr (StoreEvaluationParametersAction dc s)))"

fun StoreEvaluationParametersAction__run ::
  "StoreEvaluationParametersAction \<Rightarrow> validation_result option \<Rightarrow> py_object \<Rightarrow> 'd \<Rightarrow> world \<Rightarrow> outcome" where
  "StoreEvaluationParametersAction__run (StoreEvaluationParametersAction dc target_store)
       validation_result_suite validation_result_suite_identifier data_asset w =
     (let w1 = logger_debug ''StoreEvaluationParametersAction.run'' w in
      case validation_result_suite of
        None \<Rightarrow> (Inr NoneValue, w1)
      | Some vr \<Rightarrow>
          if \<not> isinstance_ValidationResultIdentifier validation_result_suite_identifier
          then (Inl (TypeError
                  (''validation_result_id must be of type ValidationResultIdentifier, not ''
                     @ type_format validation_result_suite_identifier)), w1)
          else after_call (store_evaluation_parameters dc vr)
                 (record_call (StoreEvaluationParameters vr) w1))"

subsection \<open>The action storing metrics\<close>

text \<open>Attributes: \<^verbatim>\<open>data_context\<close>, \<^verbatim>\<open>_requested_metrics\<close>,
  \<^verbatim>\<open>_target_store_name\<close>.\<close>

datatype StoreMetricsAction = StoreMetricsAction data_context requested_metrics string

definition StoreMetricsAction__init ::
  "data_context \<Rightarrow> requested_metrics \<Rightarrow> string \<Rightarrow> exn + StoreMetricsAction" where
  "StoreMetricsAction__init dc requested target_store_name =
     (case stores_getitem dc target_store_name of
        Inl e \<Rightarrow>
          Inl (DataContextError
                 (''Unable to find store '' @ target_store_name
                    @ '' in your DataContext configuration.''))
      | Inr s \<Rightarrow>
          if \<not> metric_store s
          then Inl (DataContextError
                      ''StoreMetricsAction must have a valid MetricsStore for its target store.'')
          else Inr (StoreMetricsAction dc requested target_store_name))"

fun StoreMetricsAction__run ::
  "StoreMetricsAction \<Rightarrow> validation_result option \<Rightarrow> py_object \<Rightarrow> 'd \<Rightarrow> world \<Rightarrow> outcome" where
  "StoreMetricsAction__run (StoreMetricsAction dc requested target_store_name)
       validation_result_suite validation_result_suite_identifier data_asset w =
     (let w1 = logger_debug ''StoreMetricsAction.run'' w in
      case validation_result_suite of
        None \<Rightarrow> (Inr NoneValue, w1)
      | Some vr \<Rightarrow>
          if \<not> isinstance_ValidationResultIdentifier validation_result_suite_identifier
          then (Inl (TypeError
                  (''validation_result_id must be of type ValidationResultIdentifier, not ''
                     @ type_format validation_result_suite_identifier)), w1)
          else after_call (store_validation_result_metrics dc requested vr target_store_name)
                 (record_call (StoreValidationResultMetrics requested vr target_store_name) w1))"

subsection \<open>The action updating the data docs\<close>

text \<open>Python's truth value of a \<^verbatim>\<open>site_names\<close> argument: \<^verbatim>\<open>None\<close> and the
  empty list are false.\<close>

definition truthy :: "string list option \<Rightarrow> bool" where
  "truthy x = (case x of None \<Rightarrow> False | Some xs \<Rightarrow> xs \<noteq> [])"

definition warnings_warn :: "string \<Rightarrow> string \<Rightarrow> world \<Rightarrow> world" where
  "warnings_warn message category w =
     w\<lparr>warnings_issued := warnings_issued w @ [(message, category)]\<rparr>"

text \<open>Attributes: \<^verbatim>\<open>data_context\<close>, \<^verbatim>\<open>_site_names\<close>.\<close>

datatype UpdateDataDocsAction = UpdateDataDocsAction data_context "string list option"

definition UpdateDataDocsAction__init ::
  "data_context \<Rightarrow> string list option \<Rightarrow> string list option \<Rightarrow> world
     \<Rightarrow> (exn + UpdateDataDocsAction) \<times> world" where
  "UpdateDataDocsAction__init dc site_names target_site_names w =
     (if truthy target_site_names
      then
        let w1 = warnings_warn ''target_site_names is deprecated. Please use site_names instead.''
                   ''DeprecationWarning'' w
        in if truthy site_names
           then (Inl (DataContextError
                   (''Invalid configuration: legacy key target_site_names and site_names key are ''
                      @ ''both present in UpdateDataDocsAction configuration'')), w1)
           else (Inr (UpdateDataDocsAction dc target_site_names), w1)
      else (Inr (UpdateDataDocsAction dc site_names), w))"

fun UpdateDataDocsAction__run ::
  "UpdateDataDocsAction \<Rightarrow> validation_result option \<Rightarrow> py_object \<Rightarrow> 'd \<Rightarrow> world \<Rightarrow> outcome" where
  "UpdateDataDocsAction__run (UpdateDataDocsAction dc site_names)
       validation_result_suite validation_result_suite_identifier data_asset w =
     (let w1 = logger_debug ''UpdateDataDocsAction.run'' w in
      case validation_result_suite of
        None \<Rightarrow> (Inr NoneValue, w1)
      | Some vr \<Rightarrow>
          if \<not> isinstance_ValidationResultIdentifier validation_result_suite_identifier
          then (Inl (TypeError
                  (''validation_result_id must be of type ValidationResultIdentifier, not ''
                     @ type_format validation_result_suite_identifier)), w1)
          else after_call (build_data_docs dc site_names [validation_result_suite_identifier])
                 (record_call (BuildDataDocs site_names [validation_result_suite_identifier]) w1))"

subsection \<open>The entry point \<^verbatim>\<open>run\<close>\<close>

text \<open>
  An action object is an instance of one of the seven classes; \<open>self__run\<close> is the
  method \<^verbatim>\<open>_run\<close> its class resolves to.
\<close>

datatype action =
    Base ValidationAction
  | NoOp NoOpAction
  | Slack SlackNotificationAction
  | StoreResult StoreValidationResultAction
  | StoreParameters StoreEvaluationParametersAction
  | StoreMetrics StoreMetricsAction
  | UpdateDocs UpdateDataDocsAction

fun self__run ::
  "action \<Rightarrow> validation_result option \<Rightarrow> py_object \<Rightarrow> 'd \<Rightarrow> world \<Rightarrow> outcome" where
  "self__run (Base a) = ValidationAction__run a"
| "self__run (NoOp a) = NoOpAction__run a"
| "self__run (Slack a) = SlackNotificationAction__run a"
| "self__run (StoreResult a) = StoreValidationResultAction__run a"
| "self__run (StoreParameters a) = StoreEvaluationParametersAction__run a"
| "self__run (StoreMetrics a) = StoreMetricsAction__run a"
| "self__run (UpdateDocs a) = UpdateDataDocsAction__run a"

text \<open>
  \<^verbatim>\<open>run\<close> forwards its three arguments and \<^verbatim>\<open>**kwargs\<close>. No \<^verbatim>\<open>_run\<close> of
  the file takes a further keyword, so a call with a non-empty \<^verbatim>\<open>kwargs\<close> raises
  \<^verbatim>\<open>TypeError\<close> at the call of \<^verbatim>\<open>_run\<close>, before its body runs.
\<close>

definition run ::
  "action \<Rightarrow> validation_result option \<Rightarrow> py_object \<Rightarrow> 'd \<Rightarrow> (string \<times> py_object) list
     \<Rightarrow> world \<Rightarrow> outcome" where
  "run self validation_result_suite validation_result_suite_identifier data_asset kwargs w =
     (if kwargs = []
      then self__run self validation_result_suite validation_result_suite_identifier data_asset w
      else (Inl (TypeError ''_run() got an unexpected keyword argument''), w))"

text \<open>The six concrete actions: every class but the base class.\<close>

fun concrete :: "action \<Rightarrow> bool" where
  "concrete (Base _) = False"
| "concrete _ = True"

text \<open>The five actions whose \<^verbatim>\<open>_run\<close> checks its arguments.\<close>

fun guarded :: "action \<Rightarrow> bool" where
  "guarded (Base _) = False"
| "guarded (NoOp _) = False"
| "guarded _ = True"

text \<open>
  What an invocation leaves to its collaborators: the calls made, and the contents of
  the stores. An invocation touches no collaborator when both are as before.
\<close>

definition untouched :: "world \<Rightarrow> world \<Rightarrow> bool" where
  "untouched w w' = (calls w' = calls w \<and> store_contents w' = store_contents w)"

text \<open>The calls made between two worlds.\<close>

definition new_calls :: "world \<Rightarrow> world \<Rightarrow> call list" where
  "new_calls w w' = drop (length (calls w)) (calls w')"

text \<open>Whether an outcome is a raised \<^verbatim>\<open>TypeError\<close>.\<close>

fun raises_TypeError :: "exn + py_value \<Rightarrow> bool" where
  "raises_TypeError (Inl (TypeError _)) = True"
| "raises_TypeError _ = False"

subsection \<open>A small Data Context\<close>

text \<open>
  A Data Context with three stores, of which only \<^verbatim>\<open>metrics_store\<close> is a
  \<^verbatim>\<open>MetricStore\<close>, whose methods return; a world in which nothing has happened
  yet and the webhook answers; a passed and a failed validation result.
\<close>

definition validations_store :: store where
  "validations_store = \<lparr>ident = 0, metric_store = False\<rparr>"

definition parameter_store :: store where
  "parameter_store = \<lparr>ident = 1, metric_store = False\<rparr>"

definition metrics_store :: store where
  "metrics_store = \<lparr>ident = 2, metric_store = True\<rparr>"

definition context0 :: data_context where
  "context0 =
     \<lparr>stores = [''validations_store'' \<mapsto> validations_store,
                ''evaluation_parameter_store'' \<mapsto> parameter_store,
                ''metrics_store'' \<mapsto> metrics_store],
      validations_store_name = ''validations_store'',
      evaluation_parameter_store = parameter_store,
      store_evaluation_parameters = (\<lambda>vr. None),
      store_validation_result_metrics = (\<lambda>requested vr name. None),
      build_data_docs = (\<lambda>site_names resource_identifiers. None)\<rparr>"

definition world0 :: world where
  "world0 =
     \<lparr>stdout = [], debug_log = [], warnings_issued = [], calls = [],
      store_contents = (\<lambda>s. Map.empty),
      slack = (\<lambda>query webhook. Inr (StrValue ''Slack notification succeeded.''))\<rparr>"

definition passed :: validation_result where
  "passed = \<lparr>success = True, body = ''passed''\<rparr>"

definition failed :: validation_result where
  "failed = \<lparr>success = False, body = ''failed''\<rparr>"

definition renderer0 :: renderer where
  "renderer0 = Renderer (\<lambda>vr. Inr (body vr))"

text \<open>One action of each concrete class over that Data Context, and an identifier.\<close>

definition identifier0 :: py_object where
  "identifier0 = ValidationResultIdentifier ''run_1''"

definition requested0 :: requested_metrics where
  "requested0 =
     [(''*'', [(''expect_column_values_to_not_be_null.unexpected_count'', [''column=id''])])]"

definition noop0 :: action where
  "noop0 = NoOp (NoOpAction context0)"

definition slack0 :: action where
  "slack0 = Slack (SlackNotificationAction context0 renderer0 ''https://hooks.example/T'' ''all'')"

definition store_result0 :: action where
  "store_result0 = StoreResult (StoreValidationResultAction context0 validations_store)"

definition store_parameters0 :: action where
  "store_parameters0 = StoreParameters (StoreEvaluationParametersAction context0 parameter_store)"

definition store_metrics0 :: action where
  "store_metrics0 = StoreMetrics (StoreMetricsAction context0 requested0 ''metrics_store'')"

definition update_docs0 :: action where
  "update_docs0 = UpdateDocs (UpdateDataDocsAction context0 None)"

section \<open>Properties\<close>

lemmas world_defs = logger_debug_def print_def record_call_def after_call_def
  send_slack_notification_def store_set_def store_get_def warnings_warn_def
  untouched_def new_calls_def

lemmas fixture_defs = context0_def world0_def passed_def failed_def renderer0_def
  validations_store_def parameter_store_def metrics_store_def identifier0_def requested0_def

lemmas action_defs = noop0_def slack0_def store_result0_def store_parameters0_def
  store_metrics0_def update_docs0_def

subsection \<open>The base class\<close>

text \<open>
  C4. Invoking \<^verbatim>\<open>_run\<close> of the base class, directly or through \<^verbatim>\<open>run\<close>,
  raises nothing: the call completes and returns the class object
  \<^verbatim>\<open>NotImplementedError\<close> as an ordinary value, leaving the world as it was.
\<close>

theorem base_run_returns_class:
  "ValidationAction__run (ValidationAction dc) r i d w = (Inr NotImplementedError_class, w)
   \<and> run (Base (ValidationAction dc)) r i d [] w = (Inr NotImplementedError_class, w)"
  by (simp add: run_def)

subsection \<open>The Slack notification action\<close>

text \<open>
  C1. Given a result that is not \<^verbatim>\<open>None\<close> and an identifier that is a
  \<^verbatim>\<open>ValidationResultIdentifier\<close>, \<^verbatim>\<open>_run\<close> of the Slack action renders the
  result exactly when \<^verbatim>\<open>notify_on\<close> is "all", or "success" and the result
  succeeded, or "failure" and the result failed. When it fires it calls the renderer and
  then, with the rendered query, the webhook, and returns what the webhook call returns
  (an exception of the renderer propagates before anything is sent); otherwise it
  returns \<^verbatim>\<open>None\<close> and calls nothing. No store is written either way.
\<close>

theorem slack_fires_iff:
  assumes "isinstance_ValidationResultIdentifier i"
    and "SlackNotificationAction__run (SlackNotificationAction dc (Renderer f) wh pol) (Some vr) i d w = (res, w')"
  shows "(Render vr \<in> set (new_calls w w'))
           = (pol = ''all'' \<or> (pol = ''success'' \<and> success vr) \<or> (pol = ''failure'' \<and> \<not> success vr))
       \<and> (if pol = ''all'' \<or> (pol = ''success'' \<and> success vr) \<or> (pol = ''failure'' \<and> \<not> success vr)
          then (case f vr of
                  Inl e \<Rightarrow> res = Inl e \<and> new_calls w w' = [Render vr]
                | Inr query \<Rightarrow> res = slack w query wh
                    \<and> new_calls w w' = [Render vr, SendSlackNotification query wh])
          else res = Inr NoneValue \<and> new_calls w w' = [])
       \<and> store_contents w' = store_contents w"
  using assms by (auto simp: world_defs split: sum.splits if_splits)

theorem slack_fires_iff_witness:
  "isinstance_ValidationResultIdentifier (ValidationResultIdentifier ''run_1'')
   \<and> SlackNotificationAction__run
        (SlackNotificationAction context0 (Renderer (\<lambda>vr. Inr (body vr))) ''https://hooks.example/T'' ''failure'')
        (Some passed) (ValidationResultIdentifier ''run_1'') () world0
      = (Inr NoneValue, logger_debug ''SlackNotificationAction.run'' world0)
   \<and> new_calls world0 (logger_debug ''SlackNotificationAction.run'' world0) = []
   \<and> SlackNotificationAction__run
        (SlackNotificationAction context0 (Renderer (\<lambda>vr. Inr (body vr))) ''https://hooks.example/T'' ''failure'')
        (Some failed) (ValidationResultIdentifier ''run_1'') () world0
      = (Inr (StrValue ''Slack notification succeeded.''),
         world0\<lparr>debug_log := [''SlackNotificationAction.run''],
                calls := [Render failed, SendSlackNotification ''failed'' ''https://hooks.example/T'']\<rparr>)
   \<and> new_calls world0
        (world0\<lparr>debug_log := [''SlackNotificationAction.run''],
                calls := [Render failed, SendSlackNotification ''failed'' ''https://hooks.example/T'']\<rparr>)
      = [Render failed, SendSlackNotification ''failed'' ''https://hooks.example/T'']"
proof -
  have i: "isinstance_ValidationResultIdentifier (ValidationResultIdentifier ''run_1'')"
    by simp
  have r1: "SlackNotificationAction__run
        (SlackNotificationAction context0 (Renderer (\<lambda>vr. Inr (body vr))) ''https://hooks.example/T'' ''failure'')
        (Some passed) (ValidationResultIdentifier ''run_1'') () world0
      = (Inr NoneValue, logger_debug ''SlackNotificationAction.run'' world0)"
    by (simp add: passed_def)
  have r2: "SlackNotificationAction__run
        (SlackNotificationAction context0 (Renderer (\<lambda>vr. Inr (body vr))) ''https://hooks.example/T'' ''failure'')
        (Some failed) (ValidationResultIdentifier ''run_1'') () world0
      = (Inr (StrValue ''Slack notification succeeded.''),
         world0\<lparr>debug_log := [''SlackNotificationAction.run''],
                calls := [Render failed, SendSlackNotification ''failed'' ''https://hooks.example/T'']\<rparr>)"
    by (simp add: failed_def world0_def world_defs)
  show ?thesis
    using i r1 r2 slack_fires_iff [OF i r1] slack_fires_iff [OF i r2]
    by (simp add: passed_def failed_def)
qed

subsection \<open>The guards of \<^verbatim>\<open>_run\<close>\<close>

lemma self_run_None:
  "concrete a \<Longrightarrow> fst (self__run a None i d w) = Inr NoneValue \<and> untouched w (snd (self__run a None i d w))"
proof (cases a)
  case (Base x) then show "concrete a \<Longrightarrow> ?thesis" by simp
next
  case (NoOp x) then show ?thesis by (cases x) (simp add: world_defs)
next
  case (Slack x) then show ?thesis by (cases x) (simp add: world_defs)
next
  case (StoreResult x) then show ?thesis by (cases x) (simp add: world_defs)
next
  case (StoreParameters x) then show ?thesis by (cases x) (simp add: world_defs)
next
  case (StoreMetrics x) then show ?thesis by (cases x) (simp add: world_defs)
next
  case (UpdateDocs x) then show ?thesis by (cases x) (simp add: world_defs)
qed

lemma self_run_wrong_identifier:
  "guarded a \<Longrightarrow> \<not> isinstance_ValidationResultIdentifier i \<Longrightarrow>
     raises_TypeError (fst (self__run a (Some vr) i d w)) \<and> untouched w (snd (self__run a (Some vr) i d w))"
proof (cases a)
  case (Base x) then show "guarded a \<Longrightarrow> ?thesis" by simp
next
  case (NoOp x) then show "guarded a \<Longrightarrow> ?thesis" by simp
next
  case (Slack x) then show "\<not> isinstance_ValidationResultIdentifier i \<Longrightarrow> ?thesis" by (cases x) (simp add: world_defs)
next
  case (StoreResult x) then show "\<not> isinstance_ValidationResultIdentifier i \<Longrightarrow> ?thesis" by (cases x) (simp add: world_defs)
next
  case (StoreParameters x) then show "\<not> isinstance_ValidationResultIdentifier i \<Longrightarrow> ?thesis" by (cases x) (simp add: world_defs)
next
  case (StoreMetrics x) then show "\<not> isinstance_ValidationResultIdentifier i \<Longrightarrow> ?thesis" by (cases x) (simp add: world_defs)
next
  case (UpdateDocs x) then show "\<not> isinstance_ValidationResultIdentifier i \<Longrightarrow> ?thesis" by (cases x) (simp add: world_defs)
qed

text \<open>
  C2. Each of the six concrete actions, invoked through \<^verbatim>\<open>run\<close> with the three
  arguments (no further keyword) or through its \<^verbatim>\<open>_run\<close>, with \<^verbatim>\<open>None\<close>
  as the validation result, returns \<^verbatim>\<open>None\<close> and touches no collaborator: no
  call is made to a renderer, the webhook, a store or the Data Context, and the contents
  of every store are as before. Only the debug log, or the line printed by the no-op
  action, is added to the world.
\<close>

theorem none_result_touches_nothing:
  assumes "concrete a"
  shows "fst (run a None i d [] w) = Inr NoneValue
       \<and> untouched w (snd (run a None i d [] w))
       \<and> fst (self__run a None i d w) = Inr NoneValue
       \<and> untouched w (snd (self__run a None i d w))"
  using self_run_None [OF assms, of i d w] by (simp add: run_def)

theorem none_result_touches_nothing_witness:
  "concrete noop0 \<and> concrete slack0 \<and> concrete store_result0 \<and> concrete store_parameters0
   \<and> concrete store_metrics0 \<and> concrete update_docs0
   \<and> run noop0 None identifier0 () [] world0
       = (Inr NoneValue, world0\<lparr>stdout := [''Happily doing nothing'']\<rparr>)
   \<and> run slack0 None identifier0 () [] world0
       = (Inr NoneValue, world0\<lparr>debug_log := [''SlackNotificationAction.run'']\<rparr>)
   \<and> run store_result0 None identifier0 () [] world0
       = (Inr NoneValue, world0\<lparr>debug_log := [''StoreValidationResultAction.run'']\<rparr>)
   \<and> run store_parameters0 None identifier0 () [] world0
       = (Inr NoneValue, world0\<lparr>debug_log := [''StoreEvaluationParametersAction.run'']\<rparr>)
   \<and> run store_metrics0 None identifier0 () [] world0
       = (Inr NoneValue, world0\<lparr>debug_log := [''StoreMetricsAction.run'']\<rparr>)
   \<and> run update_docs0 None identifier0 () [] world0
       = (Inr NoneValue, world0\<lparr>debug_log := [''UpdateDataDocsAction.run'']\<rparr>)
   \<and> untouched world0 (snd (run noop0 None identifier0 () [] world0))
   \<and> untouched world0 (snd (run slack0 None identifier0 () [] world0))
   \<and> untouched world0 (snd (run store_result0 None identifier0 () [] world0))
   \<and> untouched world0 (snd (run store_parameters0 None identifier0 () [] world0))
   \<and> untouched world0 (snd (run store_metrics0 None identifier0 () [] world0))
   \<and> untouched world0 (snd (run update_docs0 None identifier0 () [] world0))"
proof -
  have c: "concrete noop0" "concrete slack0" "concrete store_result0"
    "concrete store_parameters0" "concrete store_metrics0" "concrete update_docs0"
    by (simp_all add: action_defs)
  have r: "run noop0 None identifier0 () [] world0
       = (Inr NoneValue, world0\<lparr>stdout := [''Happily doing nothing'']\<rparr>)"
    "run slack0 None identifier0 () [] world0
       = (Inr NoneValue, world0\<lparr>debug_log := [''SlackNotificationAction.run'']\<rparr>)"
    "run store_result0 None identifier0 () [] world0
       = (Inr NoneValue, world0\<lparr>debug_log := [''StoreValidationResultAction.run'']\<rparr>)"
    "run store_parameters0 None identifier0 () [] world0
       = (Inr NoneValue, world0\<lparr>debug_log := [''StoreEvaluationParametersAction.run'']\<rparr>)"
    "run store_metrics0 None identifier0 () [] world0
       = (Inr NoneValue, world0\<lparr>debug_log := [''StoreMetricsAction.run'']\<rparr>)"
    "run update_docs0 None identifier0 () [] world0
       = (Inr NoneValue, world0\<lparr>debug_log := [''UpdateDataDocsAction.run'']\<rparr>)"
    by (simp_all add: action_defs run_def renderer0_def world_defs world0_def)
  show ?thesis
    using c
      none_result_touches_nothing [OF c(1), of identifier0 "()" world0]
      none_result_touches_nothing [OF c(2), of identifier0 "()" world0]
      none_result_touches_nothing [OF c(3), of identifier0 "()" world0]
      none_result_touches_nothing [OF c(4), of identifier0 "()" world0]
      none_result_touches_nothing [OF c(5), of identifier0 "()" world0]
      none_result_touches_nothing [OF c(6), of identifier0 "()" world0]
    by (simp add: r)
qed

text \<open>
  C3, as amended. For the five actions whose \<^verbatim>\<open>_run\<close> checks its arguments
  (Slack notification, storing the result, storing evaluation parameters, storing
  metrics, updating the data docs), \<^verbatim>\<open>run\<close> with a result that is not
  \<^verbatim>\<open>None\<close> and an identifier that is not a \<^verbatim>\<open>ValidationResultIdentifier\<close>
  raises \<^verbatim>\<open>TypeError\<close> with no collaborator touched, whatever the keywords. The
  no-op action checks nothing: it prints its line and returns \<^verbatim>\<open>None\<close>, touching
  no collaborator.
\<close>

theorem wrong_identifier_raises_when_guarded:
  "(guarded a \<and> \<not> isinstance_ValidationResultIdentifier i \<longrightarrow>
       raises_TypeError (fst (run a (Some vr) i d kwargs w))
     \<and> untouched w (snd (run a (Some vr) i d kwargs w)))
   \<and> run (NoOp (NoOpAction dc)) (Some vr) i d [] w = (Inr NoneValue, print ''Happily doing nothing'' w)
   \<and> untouched w (print ''Happily doing nothing'' w)"
  using self_run_wrong_identifier [of a i vr d w]
  by (auto simp: run_def world_defs)

theorem wrong_identifier_raises_when_guarded_witness:
  "guarded slack0 \<and> guarded store_result0 \<and> guarded store_parameters0
   \<and> guarded store_metrics0 \<and> guarded update_docs0
   \<and> \<not> isinstance_ValidationResultIdentifier (PyStr ''run_1'')
   \<and> raises_TypeError (fst (run slack0 (Some passed) (PyStr ''run_1'') () [] world0))
   \<and> untouched world0 (snd (run slack0 (Some passed) (PyStr ''run_1'') () [] world0))
   \<and> raises_TypeError (fst (run store_result0 (Some passed) (PyStr ''run_1'') () [] world0))
   \<and> untouched world0 (snd (run store_result0 (Some passed) (PyStr ''run_1'') () [] world0))
   \<and> raises_TypeError (fst (run store_parameters0 (Some passed) (PyStr ''run_1'') () [] world0))
   \<and> untouched world0 (snd (run store_parameters0 (Some passed) (PyStr ''run_1'') () [] world0))
   \<and> raises_TypeError (fst (run store_metrics0 (Some passed) (PyStr ''run_1'') () [] world0))
   \<and> untouched world0 (snd (run store_metrics0 (Some passed) (PyStr ''run_1'') () [] world0))
   \<and> raises_TypeError (fst (run update_docs0 (Some passed) (PyStr ''run_1'') () [] world0))
   \<and> untouched world0 (snd (run update_docs0 (Some passed) (PyStr ''run_1'') () [] world0))
   \<and> fst (run store_result0 (Some passed) (PyStr ''run_1'') () [] world0)
       = Inl (TypeError
           (''validation_result_id must be of type ValidationResultIdentifier, not ''
              @ ''<class 'str'>''))"
proof -
  have g: "guarded slack0" "guarded store_result0" "guarded store_parameters0"
    "guarded store_metrics0" "guarded update_docs0"
    by (simp_all add: action_defs)
  have i: "\<not> isinstance_ValidationResultIdentifier (PyStr ''run_1'')"
    by simp
  have m: "fst (run store_result0 (Some passed) (PyStr ''run_1'') () [] world0)
       = Inl (TypeError
           (''validation_result_id must be of type ValidationResultIdentifier, not ''
              @ ''<class 'str'>''))"
    by (simp add: action_defs run_def)
  show ?thesis
    using g i m
      wrong_identifier_raises_when_guarded
        [of slack0 "PyStr ''run_1''" passed "()" "[]" world0 context0]
      wrong_identifier_raises_when_guarded
        [of store_result0 "PyStr ''run_1''" passed "()" "[]" world0 context0]
      wrong_identifier_raises_when_guarded
        [of store_parameters0 "PyStr ''run_1''" passed "()" "[]" world0 context0]
      wrong_identifier_raises_when_guarded
        [of store_metrics0 "PyStr ''run_1''" passed "()" "[]" world0 context0]
      wrong_identifier_raises_when_guarded
        [of update_docs0 "PyStr ''run_1''" passed "()" "[]" world0 context0]
    by simp
qed

text \<open>
  C3 as stated, for every one of the six actions, fails at the no-op action:
  with a result and a string as the identifier it raises nothing.
\<close>

theorem noop_accepts_any_identifier:
  "concrete noop0
   \<and> \<not> isinstance_ValidationResultIdentifier (PyStr ''run_1'')
   \<and> run noop0 (Some passed) (PyStr ''run_1'') () [] world0
       = (Inr NoneValue, world0\<lparr>stdout := [''Happily doing nothing'']\<rparr>)
   \<and> \<not> raises_TypeError (fst (run noop0 (Some passed) (PyStr ''run_1'') () [] world0))"
  by (simp add: action_defs run_def world_defs world0_def)

text \<open>
  C9. In each of the five actions that check their arguments, the test for an absent
  result comes first: \<^verbatim>\<open>run\<close> with \<^verbatim>\<open>None\<close> as the result and an identifier
  that is not a \<^verbatim>\<open>ValidationResultIdentifier\<close> returns \<^verbatim>\<open>None\<close>, raises no
  \<^verbatim>\<open>TypeError\<close> and touches no collaborator, though the same identifier with a
  result present raises.
\<close>

theorem none_result_checked_first:
  assumes "guarded a" and "\<not> isinstance_ValidationResultIdentifier i"
  shows "fst (run a None i d [] w) = Inr NoneValue
       \<and> \<not> raises_TypeError (fst (run a None i d [] w))
       \<and> untouched w (snd (run a None i d [] w))
       \<and> raises_TypeError (fst (run a (Some vr) i d [] w))"
proof -
  from assms(1) have "concrete a" by (cases a) simp_all
  then show ?thesis
    using self_run_None [of a i d w] self_run_wrong_identifier [OF assms, of vr d w]
    by (simp add: run_def)
qed

theorem none_result_checked_first_witness:
  "guarded slack0 \<and> guarded store_result0 \<and> guarded store_parameters0
   \<and> guarded store_metrics0 \<and> guarded update_docs0
   \<and> \<not> isinstance_ValidationResultIdentifier PyNone
   \<and> fst (run slack0 None PyNone () [] world0) = Inr NoneValue
   \<and> fst (run store_result0 None PyNone () [] world0) = Inr NoneValue
   \<and> fst (run store_parameters0 None PyNone () [] world0) = Inr NoneValue
   \<and> fst (run store_metrics0 None PyNone () [] world0) = Inr NoneValue
   \<and> fst (run update_docs0 None PyNone () [] world0) = Inr NoneValue
   \<and> raises_TypeError (fst (run update_docs0 (Some failed) PyNone () [] world0))"
proof -
  have g: "guarded slack0" "guarded store_result0" "guarded store_parameters0"
    "guarded store_metrics0" "guarded update_docs0"
    by (simp_all add: action_defs)
  have i: "\<not> isinstance_ValidationResultIdentifier PyNone"
    by simp
  show ?thesis
    using g i
      none_result_checked_first [OF g(1) i, of "()" world0 failed]
      none_result_checked_first [OF g(2) i, of "()" world0 failed]
      none_result_checked_first [OF g(3) i, of "()" world0 failed]
      none_result_checked_first [OF g(4) i, of "()" world0 failed]
      none_result_checked_first [OF g(5) i, of "()" world0 failed]
    by simp
qed

subsection \<open>The action storing metrics\<close>

text \<open>
  C5. The constructor of the metrics action raises \<^verbatim>\<open>DataContextError\<close> when the
  target store name is not in the registry of the Data Context, and when the store under
  that name is not a \<^verbatim>\<open>MetricStore\<close>; it succeeds otherwise. \<^verbatim>\<open>_run\<close> makes
  neither check: what it does is the same under any registry, and with a valid identifier
  it only calls \<^verbatim>\<open>store_validation_result_metrics\<close> of the Data Context, returning
  \<^verbatim>\<open>None\<close> unless that call raises.
\<close>

theorem metrics_store_checked_at_construction:
  "(stores dc name = None \<longrightarrow>
      StoreMetricsAction__init dc requested name
        = Inl (DataContextError (''Unable to find store '' @ name @ '' in your DataContext configuration.'')))
   \<and> (stores dc name = Some s \<and> \<not> metric_store s \<longrightarrow>
      StoreMetricsAction__init dc requested name
        = Inl (DataContextError ''StoreMetricsAction must have a valid MetricsStore for its target store.''))
   \<and> (stores dc name = Some s \<and> metric_store s \<longrightarrow>
      StoreMetricsAction__init dc requested name = Inr (StoreMetricsAction dc requested name))
   \<and> StoreMetricsAction__run (StoreMetricsAction (dc\<lparr>stores := registry\<rparr>) requested name) r i d w
       = StoreMetricsAction__run (StoreMetricsAction dc requested name) r i d w
   \<and> (isinstance_ValidationResultIdentifier i \<longrightarrow>
        StoreMetricsAction__run (StoreMetricsAction dc requested name) (Some vr) i d w
          = (case store_validation_result_metrics dc requested vr name of
               None \<Rightarrow> Inr NoneValue | Some e \<Rightarrow> Inl e,
             record_call (StoreValidationResultMetrics requested vr name)
               (logger_debug ''StoreMetricsAction.run'' w)))"
proof -
  have registry: "StoreMetricsAction__run (StoreMetricsAction (dc\<lparr>stores := registry\<rparr>) requested name) r i d w
       = StoreMetricsAction__run (StoreMetricsAction dc requested name) r i d w"
    by (cases r) (simp_all add: Let_def)
  have init: "StoreMetricsAction__init dc requested name =
      (case stores dc name of
         None \<Rightarrow> Inl (DataContextError (''Unable to find store '' @ name @ '' in your DataContext configuration.''))
       | Some s \<Rightarrow> if metric_store s then Inr (StoreMetricsAction dc requested name)
           else Inl (DataContextError ''StoreMetricsAction must have a valid MetricsStore for its target store.''))"
    by (simp add: StoreMetricsAction__init_def stores_getitem_def split: option.splits)
  have body: "isinstance_ValidationResultIdentifier i \<longrightarrow>
        StoreMetricsAction__run (StoreMetricsAction dc requested name) (Some vr) i d w
          = (case store_validation_result_metrics dc requested vr name of
               None \<Rightarrow> Inr NoneValue | Some e \<Rightarrow> Inl e,
             record_call (StoreValidationResultMetrics requested vr name)
               (logger_debug ''StoreMetricsAction.run'' w))"
    by (simp add: after_call_def split: option.splits)
  show ?thesis
    using registry body by (simp add: init)
qed

theorem metrics_store_checked_at_construction_witness:
  "stores context0 ''no_such_store'' = None
   \<and> StoreMetricsAction__init context0 requested0 ''no_such_store''
       = Inl (DataContextError ''Unable to find store no_such_store in your DataContext configuration.'')
   \<and> stores context0 ''validations_store'' = Some validations_store
   \<and> \<not> metric_store validations_store
   \<and> StoreMetricsAction__init context0 requested0 ''validations_store''
       = Inl (DataContextError ''StoreMetricsAction must have a valid MetricsStore for its target store.'')
   \<and> stores context0 ''metrics_store'' = Some metrics_store
   \<and> metric_store metrics_store
   \<and> StoreMetricsAction__init context0 requested0 ''metrics_store''
       = Inr (StoreMetricsAction context0 requested0 ''metrics_store'')
   \<and> isinstance_ValidationResultIdentifier identifier0
   \<and> StoreMetricsAction__run
         (StoreMetricsAction (context0\<lparr>stores := Map.empty\<rparr>) requested0 ''metrics_store'')
         (Some passed) identifier0 () world0
       = (Inr NoneValue,
          world0\<lparr>debug_log := [''StoreMetricsAction.run''],
                 calls := [StoreValidationResultMetrics requested0 passed ''metrics_store'']\<rparr>)"
proof -
  have a: "stores context0 ''no_such_store'' = None"
    and b: "stores context0 ''validations_store'' = Some validations_store"
    and b': "\<not> metric_store validations_store"
    and c: "stores context0 ''metrics_store'' = Some metrics_store"
    and c': "metric_store metrics_store"
    and i: "isinstance_ValidationResultIdentifier identifier0"
    by (simp_all add: fixture_defs)
  have m: "store_validation_result_metrics context0 requested0 passed ''metrics_store'' = None"
    by (simp add: context0_def)
  have w: "record_call (StoreValidationResultMetrics requested0 passed ''metrics_store'')
             (logger_debug ''StoreMetricsAction.run'' world0)
           = world0\<lparr>debug_log := [''StoreMetricsAction.run''],
                 calls := [StoreValidationResultMetrics requested0 passed ''metrics_store'']\<rparr>"
    by (simp add: world_defs world0_def)
  show ?thesis
    using a b b' c c' i m w
      metrics_store_checked_at_construction
        [of context0 "''no_such_store''" requested0 validations_store Map.empty
            "Some passed" identifier0 "()" world0 passed]
      metrics_store_checked_at_construction
        [of context0 "''validations_store''" requested0 validations_store Map.empty
            "Some passed" identifier0 "()" world0 passed]
      metrics_store_checked_at_construction
        [of context0 "''metrics_store''" requested0 metrics_store Map.empty
            "Some passed" identifier0 "()" world0 passed]
    by simp
qed

subsection \<open>The action updating the data docs\<close>

text \<open>
  C6, as amended. With \<^verbatim>\<open>site_names\<close> and \<^verbatim>\<open>target_site_names\<close> both true in
  Python's sense, the constructor raises \<^verbatim>\<open>DataContextError\<close>. With a true
  \<^verbatim>\<open>target_site_names\<close> (a non-empty list) and no true \<^verbatim>\<open>site_names\<close>, it
  issues a deprecation warning and yields the very action that the constructor yields,
  without a warning, from \<^verbatim>\<open>site_names\<close> set to the same value. A false
  \<^verbatim>\<open>target_site_names\<close> (\<^verbatim>\<open>None\<close> or the empty list) is ignored: no warning,
  and the action keeps \<^verbatim>\<open>site_names\<close> as given.
\<close>

theorem deprecated_site_names:
  "(truthy target_site_names \<and> truthy site_names \<longrightarrow>
      fst (UpdateDataDocsAction__init dc site_names target_site_names w)
        = Inl (DataContextError
            (''Invalid configuration: legacy key target_site_names and site_names key are ''
               @ ''both present in UpdateDataDocsAction configuration'')))
   \<and> (truthy target_site_names \<and> \<not> truthy site_names \<longrightarrow>
      UpdateDataDocsAction__init dc site_names target_site_names w
        = (Inr (UpdateDataDocsAction dc target_site_names),
           warnings_warn ''target_site_names is deprecated. Please use site_names instead.''
             ''DeprecationWarning'' w)
      \<and> UpdateDataDocsAction__init dc target_site_names None w
        = (Inr (UpdateDataDocsAction dc target_site_names), w))
   \<and> (\<not> truthy target_site_names \<longrightarrow>
      UpdateDataDocsAction__init dc site_names target_site_names w
        = (Inr (UpdateDataDocsAction dc site_names), w))"
  by (simp add: UpdateDataDocsAction__init_def truthy_def)

theorem deprecated_site_names_witness:
  "truthy (Some [''local_site'']) \<and> truthy (Some [''team_site'']) \<and> \<not> truthy None
   \<and> fst (UpdateDataDocsAction__init context0 (Some [''team_site'']) (Some [''local_site'']) world0)
       = Inl (DataContextError
           (''Invalid configuration: legacy key target_site_names and site_names key are ''
              @ ''both present in UpdateDataDocsAction configuration''))
   \<and> UpdateDataDocsAction__init context0 None (Some [''local_site'']) world0
       = (Inr (UpdateDataDocsAction context0 (Some [''local_site''])),
          world0\<lparr>warnings_issued :=
            [(''target_site_names is deprecated. Please use site_names instead.'',
              ''DeprecationWarning'')]\<rparr>)
   \<and> UpdateDataDocsAction__init context0 (Some [''local_site'']) None world0
       = (Inr (UpdateDataDocsAction context0 (Some [''local_site''])), world0)"
proof -
  have t: "truthy (Some [''local_site''])" "truthy (Some [''team_site''])" "\<not> truthy None"
    by (simp_all add: truthy_def)
  have w: "warnings_warn ''target_site_names is deprecated. Please use site_names instead.''
             ''DeprecationWarning'' world0
           = world0\<lparr>warnings_issued :=
            [(''target_site_names is deprecated. Please use site_names instead.'',
              ''DeprecationWarning'')]\<rparr>"
    by (simp add: warnings_warn_def world0_def)
  show ?thesis
    using t w
      deprecated_site_names
        [of "Some [''local_site'']" "Some [''team_site'']" context0 world0]
      deprecated_site_names
        [of "Some [''local_site'']" None context0 world0]
    by simp
qed

text \<open>
  C6 as stated fails when the deprecated parameter alone is supplied as the
  empty list: no warning is issued, and the action holds \<^verbatim>\<open>None\<close> where the
  constructor called with \<^verbatim>\<open>site_names\<close> set to the empty list holds the empty
  list, so that the two pass different site names to \<^verbatim>\<open>build_data_docs\<close>.
\<close>

theorem empty_deprecated_site_names_ignored:
  "UpdateDataDocsAction__init context0 None (Some []) world0
     = (Inr (UpdateDataDocsAction context0 None), world0)
   \<and> warnings_issued (snd (UpdateDataDocsAction__init context0 None (Some []) world0)) = []
   \<and> UpdateDataDocsAction__init context0 (Some []) None world0
     = (Inr (UpdateDataDocsAction context0 (Some [])), world0)
   \<and> fst (UpdateDataDocsAction__init context0 None (Some []) world0)
     \<noteq> fst (UpdateDataDocsAction__init context0 (Some []) None world0)
   \<and> new_calls world0
        (snd (run (UpdateDocs (UpdateDataDocsAction context0 None))
                (Some passed) identifier0 () [] world0))
     = [BuildDataDocs None [identifier0]]
   \<and> new_calls world0
        (snd (run (UpdateDocs (UpdateDataDocsAction context0 (Some [])))
                (Some passed) identifier0 () [] world0))
     = [BuildDataDocs (Some []) [identifier0]]"
  by (simp add: UpdateDataDocsAction__init_def truthy_def run_def world_defs
        world0_def context0_def identifier0_def)

subsection \<open>The action storing a validation result\<close>

text \<open>
  C7. After \<^verbatim>\<open>run(result, id, asset)\<close> of the action storing results, with a result
  that is not \<^verbatim>\<open>None\<close> and an identifier that is a
  \<^verbatim>\<open>ValidationResultIdentifier\<close>, the call has returned \<^verbatim>\<open>None\<close>, exactly one
  write, of the pair of the identifier and the result, has been made to the target
  store, and reading the identifier from that store (also through the name under which
  the constructor found the store in the registry) gives the result, whatever was stored
  there before; every other key of every store is as before.
\<close>

theorem stored_result_round_trip:
  assumes "isinstance_ValidationResultIdentifier i"
    and "run (StoreResult (StoreValidationResultAction dc target_store)) (Some vr) i d [] w = (res, w')"
  shows "res = Inr NoneValue
       \<and> new_calls w w' = [StoreSet (ident target_store) i vr]
       \<and> store_get target_store i w' = Some vr
       \<and> (\<forall>s k. ident s \<noteq> ident target_store \<or> k \<noteq> i \<longrightarrow> store_get s k w' = store_get s k w)
       \<and> (\<forall>name s. StoreValidationResultAction__init dc name
                      = Inr (StoreValidationResultAction dc target_store)
                    \<and> stores dc (case name of None \<Rightarrow> validations_store_name dc | Some n \<Rightarrow> n) = Some s
                    \<longrightarrow> store_get s i w' = Some vr)"
  using assms
  by (auto simp: run_def StoreValidationResultAction__init_def stores_getitem_def world_defs
           split: option.splits)

theorem stored_result_round_trip_witness:
  "isinstance_ValidationResultIdentifier identifier0
   \<and> StoreValidationResultAction__init context0 None
       = Inr (StoreValidationResultAction context0 validations_store)
   \<and> stores context0 (validations_store_name context0) = Some validations_store
   \<and> store_get validations_store identifier0
        (store_set validations_store identifier0 failed world0) = Some failed
   \<and> run (StoreResult (StoreValidationResultAction context0 validations_store))
        (Some passed) identifier0 () [] (store_set validations_store identifier0 failed world0)
       = (Inr NoneValue,
          store_set validations_store identifier0 passed
            (logger_debug ''StoreValidationResultAction.run''
               (store_set validations_store identifier0 failed world0)))
   \<and> store_get validations_store identifier0
        (store_set validations_store identifier0 passed
            (logger_debug ''StoreValidationResultAction.run''
               (store_set validations_store identifier0 failed world0))) = Some passed
   \<and> new_calls (store_set validations_store identifier0 failed world0)
        (store_set validations_store identifier0 passed
            (logger_debug ''StoreValidationResultAction.run''
               (store_set validations_store identifier0 failed world0)))
       = [StoreSet 0 identifier0 passed]"
proof -
  have i: "isinstance_ValidationResultIdentifier identifier0"
    by (simp add: identifier0_def)
  have c: "StoreValidationResultAction__init context0 None
       = Inr (StoreValidationResultAction context0 validations_store)"
    "stores context0 (validations_store_name context0) = Some validations_store"
    by (simp_all add: StoreValidationResultAction__init_def stores_getitem_def context0_def)
  have p: "store_get validations_store identifier0
        (store_set validations_store identifier0 failed world0) = Some failed"
    by (simp add: store_get_def store_set_def record_call_def)
  have r: "run (StoreResult (StoreValidationResultAction context0 validations_store))
        (Some passed) identifier0 () [] (store_set validations_store identifier0 failed world0)
       = (Inr NoneValue,
          store_set validations_store identifier0 passed
            (logger_debug ''StoreValidationResultAction.run''
               (store_set validations_store identifier0 failed world0)))"
    by (simp add: run_def identifier0_def)
  have n: "ident validations_store = 0"
    by (simp add: validations_store_def)
  show ?thesis
    using i c p r n stored_result_round_trip [OF i r]
    by simp
qed

subsection \<open>The action storing evaluation parameters\<close>

text \<open>
  C8, as amended. Without a target store name the constructor takes the evaluation
  parameter store of the Data Context and does not fail. With a name, it looks the name
  up in the registry: it takes the store found there, and raises \<^verbatim>\<open>KeyError\<close> when
  the name is not in the registry.
\<close>

theorem parameter_store_resolution:
  "StoreEvaluationParametersAction__init dc None
     = Inr (StoreEvaluationParametersAction dc (evaluation_parameter_store dc))
   \<and> (stores dc name = Some s \<longrightarrow>
        StoreEvaluationParametersAction__init dc (Some name)
          = Inr (StoreEvaluationParametersAction dc s))
   \<and> (stores dc name = None \<longrightarrow>
        StoreEvaluationParametersAction__init dc (Some name) = Inl (KeyError name))"
  by (simp add: StoreEvaluationParametersAction__init_def stores_getitem_def)

theorem parameter_store_resolution_witness:
  "StoreEvaluationParametersAction__init context0 None
     = Inr (StoreEvaluationParametersAction context0 parameter_store)
   \<and> stores context0 ''metrics_store'' = Some metrics_store
   \<and> StoreEvaluationParametersAction__init context0 (Some ''metrics_store'')
       = Inr (StoreEvaluationParametersAction context0 metrics_store)
   \<and> stores context0 ''parameters'' = None
   \<and> StoreEvaluationParametersAction__init context0 (Some ''parameters'')
       = Inl (KeyError ''parameters'')"
proof -
  have a: "stores context0 ''metrics_store'' = Some metrics_store"
    and b: "stores context0 ''parameters'' = None"
    and e: "evaluation_parameter_store context0 = parameter_store"
    by (simp_all add: context0_def)
  show ?thesis
    using a b e
      parameter_store_resolution [of context0 "''metrics_store''" metrics_store]
      parameter_store_resolution [of context0 "''parameters''" metrics_store]
    by simp
qed

text \<open>
  C8 as stated, that the constructor completes for every target store name,
  fails at a name that is not in the registry.
\<close>

theorem unknown_parameter_store_raises:
  "stores context0 ''no_such_store'' = None
   \<and> StoreEvaluationParametersAction__init context0 (Some ''no_such_store'')
       = Inl (KeyError ''no_such_store'')"
  by (simp add: StoreEvaluationParametersAction__init_def stores_getitem_def context0_def)

text \<open>
  C10. \<^verbatim>\<open>_run\<close> of the action storing evaluation parameters does not depend on the
  target store found by the constructor: two actions constructed over one Data Context
  from different target store names behave alike on every input. With a result and a
  valid identifier, \<^verbatim>\<open>_run\<close> makes the single call
  \<^verbatim>\<open>store_evaluation_parameters(result)\<close> to the Data Context and leaves the contents
  of every store as they were.
\<close>

theorem parameter_run_ignores_target_store:
  assumes "StoreEvaluationParametersAction__init dc name1 = Inr a1"
    and "StoreEvaluationParametersAction__init dc name2 = Inr a2"
  shows "StoreEvaluationParametersAction__run a1 r i d w
           = StoreEvaluationParametersAction__run a2 r i d w
       \<and> (isinstance_ValidationResultIdentifier i \<longrightarrow>
            StoreEvaluationParametersAction__run a1 (Some vr) i d w
              = (case store_evaluation_parameters dc vr of
                   None \<Rightarrow> Inr NoneValue | Some e \<Rightarrow> Inl e,
                 record_call (StoreEvaluationParameters vr)
                   (logger_debug ''StoreEvaluationParametersAction.run'' w))
          \<and> new_calls w (snd (StoreEvaluationParametersAction__run a1 (Some vr) i d w))
              = [StoreEvaluationParameters vr]
          \<and> store_contents (snd (StoreEvaluationParametersAction__run a1 (Some vr) i d w))
              = store_contents w)"
  using assms
  by (auto simp: StoreEvaluationParametersAction__init_def stores_getitem_def world_defs
           split: option.splits)

theorem parameter_run_ignores_target_store_witness:
  "StoreEvaluationParametersAction__init context0 (Some ''validations_store'')
     = Inr (StoreEvaluationParametersAction context0 validations_store)
   \<and> StoreEvaluationParametersAction__init context0 (Some ''metrics_store'')
     = Inr (StoreEvaluationParametersAction context0 metrics_store)
   \<and> validations_store \<noteq> metrics_store
   \<and> isinstance_ValidationResultIdentifier identifier0
   \<and> StoreEvaluationParametersAction__run
        (StoreEvaluationParametersAction context0 validations_store)
        (Some passed) identifier0 () world0
     = StoreEvaluationParametersAction__run
        (StoreEvaluationParametersAction context0 metrics_store)
        (Some passed) identifier0 () world0
   \<and> StoreEvaluationParametersAction__run
        (StoreEvaluationParametersAction context0 metrics_store)
        (Some passed) identifier0 () world0
     = (Inr NoneValue,
        world0\<lparr>debug_log := [''StoreEvaluationParametersAction.run''],
               calls := [StoreEvaluationParameters passed]\<rparr>)"
proof -
  have a: "StoreEvaluationParametersAction__init context0 (Some ''validations_store'')
     = Inr (StoreEvaluationParametersAction context0 validations_store)"
    and b: "StoreEvaluationParametersAction__init context0 (Some ''metrics_store'')
     = Inr (StoreEvaluationParametersAction context0 metrics_store)"
    by (simp_all add: StoreEvaluationParametersAction__init_def stores_getitem_def context0_def)
  have d: "validations_store \<noteq> metrics_store"
    by (simp add: validations_store_def metrics_store_def)
  have i: "isinstance_ValidationResultIdentifier identifier0"
    by (simp add: identifier0_def)
  have v: "StoreEvaluationParametersAction__run
        (StoreEvaluationParametersAction context0 metrics_store)
        (Some passed) identifier0 () world0
     = (Inr NoneValue,
        world0\<lparr>debug_log := [''StoreEvaluationParametersAction.run''],
               calls := [StoreEvaluationParameters passed]\<rparr>)"
    by (simp add: identifier0_def world_defs world0_def context0_def)
  show ?thesis
    using a b d i v
      parameter_run_ignores_target_store [OF a b, of "Some passed" identifier0 "()" world0 passed]
    by simp
qed

end
